theory Spec2Isabelle
  imports Main
begin

section \<open>JavaScript values as far as the two modules inspect them\<close>

text \<open>
  Both source files are TypeScript that decides by runtime shape
  (\<^verbatim>\<open>typeof\<close>, truthiness, property reads, \<^verbatim>\<open>Array.isArray\<close>).
  A value is therefore a tagged union; an object or a function carries the
  properties a read can see, in insertion order.
\<close>

datatype jsval =
    JUndefined
  | JNull
  | JBool bool
  | JNum int
  | JStr string
  | JArr "jsval list"
  | JObj "(string \<times> jsval) list"
  | JFun string "(string \<times> jsval) list"

datatype js_type = TUndefined | TObject | TBoolean | TNumber | TString | TFunction

text \<open>An exception is either raised by the runtime or thrown by foreign code.\<close>

datatype js_error = TypeError string | Thrown jsval

fun typeOf :: "jsval \<Rightarrow> js_type" where
  "typeOf JUndefined = TUndefined"
| "typeOf JNull = TObject"
| "typeOf (JBool b) = TBoolean"
| "typeOf (JNum n) = TNumber"
| "typeOf (JStr s) = TString"
| "typeOf (JArr xs) = TObject"
| "typeOf (JObj ps) = TObject"
| "typeOf (JFun n ps) = TFunction"

fun truthy :: "jsval \<Rightarrow> bool" where
  "truthy JUndefined = False"
| "truthy JNull = False"
| "truthy (JBool b) = b"
| "truthy (JNum n) = (n \<noteq> 0)"
| "truthy (JStr s) = (s \<noteq> [])"
| "truthy (JArr xs) = True"
| "truthy (JObj ps) = True"
| "truthy (JFun n ps) = True"

text \<open>
  \<^verbatim>\<open>v.k\<close>: reading a property of \<^verbatim>\<open>undefined\<close> or \<^verbatim>\<open>null\<close> raises a
  TypeError; a missing property reads as \<^verbatim>\<open>undefined\<close>; a function
  answers \<^verbatim>\<open>name\<close> with its own name unless a property shadows it.
\<close>

fun getProp :: "jsval \<Rightarrow> string \<Rightarrow> js_error + jsval" where
  "getProp JUndefined k = Inl (TypeError k)"
| "getProp JNull k = Inl (TypeError k)"
| "getProp (JObj ps) k = Inr (case map_of ps k of Some v \<Rightarrow> v | None \<Rightarrow> JUndefined)"
| "getProp (JFun n ps) k =
     Inr (case map_of ps k of Some v \<Rightarrow> v
          | None \<Rightarrow> if k = ''name'' then JStr n else JUndefined)"
| "getProp (JBool b) k = Inr JUndefined"
| "getProp (JNum n) k = Inr JUndefined"
| "getProp (JStr s) k = Inr JUndefined"
| "getProp (JArr xs) k = Inr JUndefined"

text \<open>\<^verbatim>\<open>a || b\<close>\<close>

definition js_or :: "jsval \<Rightarrow> jsval \<Rightarrow> jsval" where
  "js_or a b = (if truthy a then a else b)"

text \<open>Array destructuring: a position past the end reads as \<^verbatim>\<open>undefined\<close>.\<close>

definition element :: "jsval list \<Rightarrow> nat \<Rightarrow> jsval" where
  "element xs i = (if i < length xs then xs ! i else JUndefined)"

section \<open>Service resolution (initialiseServices and its two callers)\<close>

text \<open>
  What the module does to the outside world, in order: the three debug
  messages of \<^verbatim>\<open>initialiseServices\<close>, \<^verbatim>\<open>log.error\<close>, a call of
  the plugin loader with its first argument, and a \<^verbatim>\<open>new\<close> with the
  constructor and the options.
\<close>

datatype debug_msg =
    CustomInitiated
  | CustomService jsval
  | NpmPackage jsval

datatype event =
    LogDebug debug_msg
  | LogError js_error
  | PluginCall jsval
  | NewCall jsval jsval

record wdio_config =
  services :: "jsval list option"

text \<open>
  The plugin loader \<^verbatim>\<open>initialisePlugin(name, 'service')\<close> and the effect of
  \<^verbatim>\<open>new C(options, caps, config)\<close> belong to other modules and to the
  configured classes; they are parameters. A \<^verbatim>\<open>new\<close> that returns yields
  an object, given here by its properties.
\<close>

type_synonym plugin_loader = "jsval \<Rightarrow> js_error + jsval"
type_synonym constructing =
  "jsval \<Rightarrow> jsval \<Rightarrow> jsval \<Rightarrow> wdio_config \<Rightarrow> js_error + (string \<times> jsval) list"

text \<open>
  \<^verbatim>\<open>[service, serviceConfig, serviceName]\<close>; the third position of a
  two-element tuple destructures to \<^verbatim>\<open>undefined\<close>.
\<close>

type_synonym IntialisedService = "jsval \<times> jsval \<times> jsval"

definition sanitizeServiceArray :: "jsval \<Rightarrow> jsval list" where
  "sanitizeServiceArray service =
     (case service of JArr xs \<Rightarrow> xs | _ \<Rightarrow> [service, JObj []])"

text \<open>One round of the loop of \<^verbatim>\<open>initialiseServices\<close>.\<close>

definition initialiseServices_body ::
  "plugin_loader \<Rightarrow> jsval list \<Rightarrow> (js_error + IntialisedService) \<times> event list" where
  "initialiseServices_body initialisePlugin entry =
     (let serviceName = element entry 0;
          serviceConfig = (if element entry 1 = JUndefined then JObj [] else element entry 1)
      in if typeOf serviceName = TObject then
           (Inr (serviceName, JObj [], JUndefined), [LogDebug CustomInitiated])
         else if typeOf serviceName = TFunction then
           (Inr (serviceName, serviceConfig, JUndefined),
            [LogDebug (CustomService (case getProp serviceName ''name'' of
                                        Inr n \<Rightarrow> n | Inl e \<Rightarrow> JUndefined))])
         else
           (case initialisePlugin serviceName of
              Inl err \<Rightarrow> (Inl err, [LogDebug (NpmPackage serviceName), PluginCall serviceName])
            | Inr service \<Rightarrow>
                (Inr (service, serviceConfig, serviceName),
                 [LogDebug (NpmPackage serviceName), PluginCall serviceName])))"

fun initialiseServices_loop ::
  "plugin_loader \<Rightarrow> IntialisedService list \<Rightarrow> event list \<Rightarrow> jsval list list \<Rightarrow>
   (js_error + IntialisedService list) \<times> event list" where
  "initialiseServices_loop initialisePlugin initialisedServices ev [] =
     (Inr initialisedServices, ev)"
| "initialiseServices_loop initialisePlugin initialisedServices ev (entry # rest) =
     (case initialiseServices_body initialisePlugin entry of
        (Inl err, ev') \<Rightarrow> (Inl err, ev @ ev')
      | (Inr r, ev') \<Rightarrow>
          initialiseServices_loop initialisePlugin (initialisedServices @ [r]) (ev @ ev') rest)"

definition initialiseServices ::
  "plugin_loader \<Rightarrow> jsval list list \<Rightarrow> (js_error + IntialisedService list) \<times> event list" where
  "initialiseServices initialisePlugin services_in =
     initialiseServices_loop initialisePlugin [] [] services_in"

subsection \<open>Launcher side\<close>

record launcher_result =
  ignoredWorkerServices :: "jsval list"
  launcherServices :: "jsval list"

text \<open>
  One round of the loop of \<^verbatim>\<open>initialiseLauncherService\<close>. The two arrays
  live outside the \<^verbatim>\<open>try\<close>, so a round that raises leaves them as they
  were when it raised.
\<close>

definition launcher_body ::
  "constructing \<Rightarrow> jsval \<Rightarrow> wdio_config \<Rightarrow> IntialisedService \<Rightarrow>
   launcher_result \<times> event list \<Rightarrow> js_error option \<times> launcher_result \<times> event list" where
  "launcher_body construct caps config triple st =
     (case triple of (service, serviceConfig, serviceName) \<Rightarrow>
      case st of (acc, ev) \<Rightarrow>
        if typeOf service = TObject \<and> \<not> truthy serviceName then
          (None, acc\<lparr>launcherServices := launcherServices acc @ [service]\<rparr>, ev)
        else
          (case getProp service ''launcher'' of
             Inl err \<Rightarrow> (Some err, acc, ev)
           | Inr l \<Rightarrow>
               let Launcher = js_or l service;
                   made = (if typeOf Launcher = TFunction then
                             (case construct Launcher serviceConfig caps config of
                                Inl err \<Rightarrow> (Some err, acc, ev @ [NewCall Launcher serviceConfig])
                              | Inr inst \<Rightarrow>
                                  (None,
                                   acc\<lparr>launcherServices := launcherServices acc @ [JObj inst]\<rparr>,
                                   ev @ [NewCall Launcher serviceConfig]))
                           else (None, acc, ev))
               in (case made of
                     (Some err, acc', ev') \<Rightarrow> (Some err, acc', ev')
                   | (None, acc', ev') \<Rightarrow>
                       if \<not> truthy serviceName then (None, acc', ev')
                       else (case getProp service ''default'' of
                               Inl err \<Rightarrow> (Some err, acc', ev')
                             | Inr d \<Rightarrow>
                                 if typeOf d \<noteq> TFunction \<and> typeOf service \<noteq> TFunction then
                                   (None,
                                    acc'\<lparr>ignoredWorkerServices :=
                                           ignoredWorkerServices acc' @ [serviceName]\<rparr>,
                                    ev')
                                 else (None, acc', ev')))))"

fun launcher_loop ::
  "constructing \<Rightarrow> jsval \<Rightarrow> wdio_config \<Rightarrow> IntialisedService list \<Rightarrow>
   launcher_result \<times> event list \<Rightarrow> js_error option \<times> launcher_result \<times> event list" where
  "launcher_loop construct caps config [] st = (None, st)"
| "launcher_loop construct caps config (t # ts) st =
     (case launcher_body construct caps config t st of
        (Some err, acc, ev) \<Rightarrow> (Some err, acc, ev)
      | (None, acc, ev) \<Rightarrow> launcher_loop construct caps config ts (acc, ev))"

text \<open>The \<^verbatim>\<open>try\<close> block: what it raised, and the two arrays and the effects at that point.\<close>

definition launcher_try ::
  "plugin_loader \<Rightarrow> constructing \<Rightarrow> wdio_config \<Rightarrow> jsval \<Rightarrow>
   js_error option \<times> launcher_result \<times> event list" where
  "launcher_try initialisePlugin construct config caps =
     (let empty = \<lparr>ignoredWorkerServices = [], launcherServices = []\<rparr>
      in case services config of
           None \<Rightarrow> (Some (TypeError ''map''), empty, [])
         | Some svcs \<Rightarrow>
             (case initialiseServices initialisePlugin (map sanitizeServiceArray svcs) of
                (Inl err, ev) \<Rightarrow> (Some err, empty, ev)
              | (Inr resolved, ev) \<Rightarrow> launcher_loop construct caps config resolved (empty, ev)))"

text \<open>
  The whole function: \<^verbatim>\<open>catch\<close> logs, and the \<^verbatim>\<open>return\<close> after it hands
  back the two arrays. \<open>Inl\<close> would be an exception leaving the function.
\<close>

definition initialiseLauncherService ::
  "plugin_loader \<Rightarrow> constructing \<Rightarrow> wdio_config \<Rightarrow> jsval \<Rightarrow>
   (js_error + launcher_result) \<times> event list" where
  "initialiseLauncherService initialisePlugin construct config caps =
     (case launcher_try initialisePlugin construct config caps of
        (Some err, acc, ev) \<Rightarrow> (Inr acc, ev @ [LogError err])
      | (None, acc, ev) \<Rightarrow> (Inr acc, ev))"

subsection \<open>Worker side\<close>

text \<open>\<^verbatim>\<open>ignoredWorkerServices.includes(serviceName)\<close> on a \<^verbatim>\<open>string[]\<close>.\<close>

definition includes_name :: "string list \<Rightarrow> jsval \<Rightarrow> bool" where
  "includes_name ignored v = (case v of JStr s \<Rightarrow> s \<in> set ignored | _ \<Rightarrow> False)"

text \<open>The function mapped over the resolved services; no \<^verbatim>\<open>return\<close> is \<^verbatim>\<open>undefined\<close>.\<close>

definition worker_body ::
  "constructing \<Rightarrow> jsval \<Rightarrow> wdio_config \<Rightarrow> IntialisedService \<Rightarrow>
   (js_error + jsval) \<times> event list" where
  "worker_body construct caps config triple =
     (case triple of (service, serviceConfig, serviceName) \<Rightarrow>
        if typeOf service = TObject \<and> \<not> truthy serviceName then (Inr service, [])
        else
          (case getProp service ''default'' of
             Inl err \<Rightarrow> (Inl err, [])
           | Inr d \<Rightarrow>
               let Service = js_or d service
               in if typeOf Service = TFunction then
                    (case construct Service serviceConfig caps config of
                       Inl err \<Rightarrow> (Inl err, [NewCall Service serviceConfig])
                     | Inr inst \<Rightarrow> (Inr (JObj inst), [NewCall Service serviceConfig]))
                  else (Inr JUndefined, [])))"

fun worker_map ::
  "constructing \<Rightarrow> jsval \<Rightarrow> wdio_config \<Rightarrow> IntialisedService list \<Rightarrow>
   (js_error + jsval list) \<times> event list" where
  "worker_map construct caps config [] = (Inr [], [])"
| "worker_map construct caps config (t # ts) =
     (case worker_body construct caps config t of
        (Inl err, ev) \<Rightarrow> (Inl err, ev)
      | (Inr v, ev) \<Rightarrow>
          (case worker_map construct caps config ts of
             (Inl err, ev') \<Rightarrow> (Inl err, ev @ ev')
           | (Inr vs, ev') \<Rightarrow> (Inr (v # vs), ev @ ev')))"

text \<open>The list handed to \<^verbatim>\<open>initialiseServices\<close>: normalised, then filtered by name.\<close>

definition workerServices :: "jsval list \<Rightarrow> string list \<Rightarrow> jsval list list" where
  "workerServices svcs ignored =
     filter (\<lambda>entry. \<not> includes_name ignored (element entry 0))
            (map sanitizeServiceArray svcs)"

text \<open>The \<^verbatim>\<open>try\<close> block of \<^verbatim>\<open>initialiseWorkerService\<close>.\<close>

definition worker_try ::
  "plugin_loader \<Rightarrow> constructing \<Rightarrow> wdio_config \<Rightarrow> jsval \<Rightarrow> jsval list list \<Rightarrow>
   (js_error + jsval list) \<times> event list" where
  "worker_try initialisePlugin construct config caps ws =
     (case initialiseServices initialisePlugin ws of
        (Inl err, ev) \<Rightarrow> (Inl err, ev)
      | (Inr resolved, ev) \<Rightarrow>
          (case worker_map construct caps config resolved of
             (Inl err, ev') \<Rightarrow> (Inl err, ev @ ev')
           | (Inr vs, ev') \<Rightarrow> (Inr (filter truthy vs), ev @ ev')))"

text \<open>
  The whole function. \<^verbatim>\<open>config.services!.map\<close> stands before the \<^verbatim>\<open>try\<close>,
  so a configuration without a service list raises out of the function.
\<close>

definition initialiseWorkerService ::
  "plugin_loader \<Rightarrow> constructing \<Rightarrow> wdio_config \<Rightarrow> jsval \<Rightarrow> string list \<Rightarrow>
   (js_error + jsval list) \<times> event list" where
  "initialiseWorkerService initialisePlugin construct config caps ignored =
     (case services config of
        None \<Rightarrow> (Inl (TypeError ''map''), [])
      | Some svcs \<Rightarrow>
          (case worker_try initialisePlugin construct config caps (workerServices svcs ignored) of
             (Inl err, ev) \<Rightarrow> (Inr [], ev @ [LogError err])
           | (Inr vs, ev) \<Rightarrow> (Inr vs, ev)))"

section \<open>The selenium-standalone launcher\<close>

text \<open>
  \<^verbatim>\<open>SeleniumStandalone.install\<close> and \<^verbatim>\<open>SeleniumStandalone.start\<close> are foreign
  functions. The launcher builds function values from them with
  \<^verbatim>\<open>bind\<close> and \<^verbatim>\<open>promisify\<close>; both return a new function and call nothing.
\<close>

datatype ext_fn = SeleniumInstall | SeleniumStart

datatype js_fun = External ext_fn | Bound js_fun jsval | Promisified js_fun

definition bind_this :: "js_fun \<Rightarrow> jsval \<Rightarrow> js_fun" where
  "bind_this f thisArg = Bound f thisArg"

definition promisify :: "js_fun \<Rightarrow> js_fun" where
  "promisify f = Promisified f"

text \<open>
  What the field \<^verbatim>\<open>process\<close> can hold: nothing (declared, never assigned),
  a function value, or the handle of a child process (with its streams, its
  \<^verbatim>\<open>kill\<close> and its \<^verbatim>\<open>on\<close>), named by a number.
\<close>

datatype process_val = NoProcess | FunctionValue js_fun | ChildProcess nat

fun truthy_process :: "process_val \<Rightarrow> bool" where
  "truthy_process NoProcess = False"
| "truthy_process (FunctionValue f) = True"
| "truthy_process (ChildProcess n) = True"

datatype emitter = HostProcess | Child nat
datatype stream = Stdout | Stderr

text \<open>
  The effects of the launcher on the outside, in order. \<open>Called\<close> is a call of one of
  the two foreign functions with its \<^verbatim>\<open>this\<close> and its argument; \<open>On\<close> registers
  \<^verbatim>\<open>_stopProcess\<close> for an event of an emitter.
\<close>

datatype effect =
    LogInfo string
  | Called ext_fn jsval jsval
  | EnsureFileSync string
  | CreateWriteStream string
  | PipeTo stream nat string
  | Kill nat
  | On emitter string

text \<open>A capability descriptor: an object read and written by property name.\<close>

type_synonym descriptor = "string \<rightharpoonup> jsval"

text \<open>
  \<^verbatim>\<open>capabilities: any\<close>: an array of capability descriptors, or an object
  whose values are the descriptors (multiremote).
\<close>

datatype capabilities_in =
    CapsArray "descriptor list"
  | CapsObject "(string \<times> descriptor) list"

record SeleniumStandaloneOptions =
  opt_logPath :: "string option"
  opt_installArgs :: jsval
  opt_args :: jsval
  opt_skipSeleniumInstall :: "bool option"

record Config =
  outputDir :: "string option"
  watch :: "bool option"

record SeleniumStandaloneLauncher =
  capabilities :: capabilities_in
  logPath :: "string option"
  args :: jsval
  installArgs :: jsval
  skipSeleniumInstall :: bool
  watchMode :: bool
  process :: process_val

text \<open>
  The file system and \<^verbatim>\<open>getFilePath\<close> of \<^verbatim>\<open>./utils\<close> are outside this
  module: \<open>ensureFileSync\<close> says whether creating the file raises.
\<close>

record host =
  getFilePath :: "string \<Rightarrow> string \<Rightarrow> string"
  ensureFileSync :: "string \<Rightarrow> js_error option"

definition DEFAULT_LOG_FILENAME :: string where
  "DEFAULT_LOG_FILENAME = ''wdio-selenium-standalone.log''"

definition DEFAULT_CONNECTION :: descriptor where
  "DEFAULT_CONNECTION =
     [''protocol'' \<mapsto> JStr ''http'',
      ''hostname'' \<mapsto> JStr ''localhost'',
      ''port'' \<mapsto> JNum 4444,
      ''path'' \<mapsto> JStr ''/wd/hub'']"

text \<open>\<^verbatim>\<open>Boolean(x)\<close> of an optional boolean.\<close>

definition Boolean_opt :: "bool option \<Rightarrow> bool" where
  "Boolean_opt b = (case b of Some v \<Rightarrow> v | None \<Rightarrow> False)"

text \<open>\<^verbatim>\<open>a || b\<close> on optional strings: the empty string is falsy.\<close>

definition str_or :: "string option \<Rightarrow> string option \<Rightarrow> string option" where
  "str_or a b = (case a of Some s \<Rightarrow> if s \<noteq> [] then Some s else b | None \<Rightarrow> b)"

definition constructor ::
  "SeleniumStandaloneOptions \<Rightarrow> capabilities_in \<Rightarrow> Config \<Rightarrow> SeleniumStandaloneLauncher" where
  "constructor options caps config =
     \<lparr>capabilities = caps,
      logPath = str_or (opt_logPath options) (outputDir config),
      args = js_or (opt_args options) (JObj []),
      installArgs = js_or (opt_installArgs options) (JObj []),
      skipSeleniumInstall = Boolean_opt (opt_skipSeleniumInstall options),
      watchMode = False,
      process = NoProcess\<rparr>"

text \<open>
  \<^verbatim>\<open>Object.assign(target, ...sources)\<close>: the properties of each source are
  written to the target, source after source.
\<close>

definition object_assign :: "descriptor \<Rightarrow> descriptor list \<Rightarrow> descriptor" where
  "object_assign target sources = foldl (++) target sources"

text \<open>
  \<^verbatim>\<open>Object.assign(cap, DEFAULT_CONNECTION, { ...cap })\<close>: the copy is taken
  before the call, so the second source is the descriptor as it was.
\<close>

definition assign_defaults :: "descriptor \<Rightarrow> descriptor" where
  "assign_defaults cap = object_assign cap [DEFAULT_CONNECTION, cap]"

text \<open>\<^verbatim>\<open>Array.isArray(caps) ? caps : Object.values(caps)\<close>\<close>

fun descriptors :: "capabilities_in \<Rightarrow> descriptor list" where
  "descriptors (CapsArray cs) = cs"
| "descriptors (CapsObject kcs) = map snd kcs"

fun update_capabilities :: "capabilities_in \<Rightarrow> capabilities_in" where
  "update_capabilities (CapsArray cs) = CapsArray (map assign_defaults cs)"
| "update_capabilities (CapsObject kcs) =
     CapsObject (map (\<lambda>(k, c). (k, assign_defaults c)) kcs)"

text \<open>
  \<^verbatim>\<open>this.process.stdout?.pipe(logStream)\<close> and the same for \<^verbatim>\<open>stderr\<close>:
  a function value has no such property and the optional chain stops.
\<close>

fun pipe_stream :: "process_val \<Rightarrow> stream \<Rightarrow> string \<Rightarrow> js_error + effect list" where
  "pipe_stream NoProcess s f = Inl (TypeError ''stdout'')"
| "pipe_stream (FunctionValue g) s f = Inr []"
| "pipe_stream (ChildProcess n) s f = Inr [PipeTo s n f]"

definition redirectLogStream ::
  "host \<Rightarrow> SeleniumStandaloneLauncher \<Rightarrow> string \<Rightarrow> js_error option \<times> effect list" where
  "redirectLogStream h this path =
     (let logFile = getFilePath h path DEFAULT_LOG_FILENAME
      in case ensureFileSync h logFile of
           Some err \<Rightarrow> (Some err, [EnsureFileSync logFile])
         | None \<Rightarrow>
             (case pipe_stream (process this) Stdout logFile of
                Inl err \<Rightarrow> (Some err, [EnsureFileSync logFile, CreateWriteStream logFile])
              | Inr e1 \<Rightarrow>
                  (case pipe_stream (process this) Stderr logFile of
                     Inl err \<Rightarrow>
                       (Some err, [EnsureFileSync logFile, CreateWriteStream logFile] @ e1)
                   | Inr e2 \<Rightarrow>
                       (None, [EnsureFileSync logFile, CreateWriteStream logFile] @ e1 @ e2))))"

text \<open>
  \<^verbatim>\<open>this.process.on(event, this._stopProcess)\<close>: the receiver is the field,
  and calling a property that is not there raises.
\<close>

fun process_on :: "process_val \<Rightarrow> string \<Rightarrow> js_error + effect" where
  "process_on NoProcess ev = Inl (TypeError ''on'')"
| "process_on (FunctionValue g) ev = Inl (TypeError ''on'')"
| "process_on (ChildProcess n) ev = Inr (On (Child n) ev)"

fun register_all :: "process_val \<Rightarrow> string list \<Rightarrow> js_error option \<times> effect list" where
  "register_all p [] = (None, [])"
| "register_all p (ev # evs) =
     (case process_on p ev of
        Inl err \<Rightarrow> (Some err, [])
      | Inr e \<Rightarrow> (case register_all p evs of (r, es) \<Rightarrow> (r, e # es)))"

text \<open>
  \<^verbatim>\<open>onPrepare\<close>. The result is the rejection, if any, the launcher as the
  call leaves it, and the effects. The value awaited in the install step is a
  function, not a promise, so the \<^verbatim>\<open>await\<close> continues with it; the value
  assigned to \<^verbatim>\<open>process\<close> is the function \<^verbatim>\<open>promisify\<close> returns.
\<close>

definition onPrepare ::
  "host \<Rightarrow> Config \<Rightarrow> SeleniumStandaloneLauncher \<Rightarrow>
   js_error option \<times> SeleniumStandaloneLauncher \<times> effect list" where
  "onPrepare h config this0 =
     (let this1 = this0\<lparr>watchMode := Boolean_opt (watch config)\<rparr>;
          awaited = (if \<not> skipSeleniumInstall this1
                     then Some (promisify (bind_this (External SeleniumInstall) (installArgs this1)))
                     else None);
          this2 = this1\<lparr>capabilities := update_capabilities (capabilities this1)\<rparr>;
          this3 = this2\<lparr>process :=
                    FunctionValue (promisify (bind_this (External SeleniumStart) (args this2)))\<rparr>;
          redirected = (case logPath this3 of
                          Some path \<Rightarrow> redirectLogStream h this3 path
                        | None \<Rightarrow> (None, []))
      in case redirected of
           (Some err, es) \<Rightarrow> (Some err, this3, es)
         | (None, es) \<Rightarrow>
             if watchMode this3 then
               (case register_all (process this3) [''SIGINT'', ''exit'', ''uncaughtException''] of
                  (r, es') \<Rightarrow> (r, this3, es @ es'))
             else (None, this3, es))"

definition stopProcess ::
  "SeleniumStandaloneLauncher \<Rightarrow> js_error option \<times> effect list" where
  "stopProcess this =
     (if truthy_process (process this) then
        (case process this of
           ChildProcess n \<Rightarrow> (None, [LogInfo ''shutting down all browsers'', Kill n])
         | _ \<Rightarrow> (Some (TypeError ''kill''), [LogInfo ''shutting down all browsers'']))
      else (None, []))"

definition onComplete ::
  "SeleniumStandaloneLauncher \<Rightarrow> js_error option \<times> effect list" where
  "onComplete this = (if \<not> watchMode this then stopProcess this else (None, []))"

text \<open>
  The paths that reach \<^verbatim>\<open>_stopProcess\<close>: the runner calling
  \<^verbatim>\<open>onComplete\<close>, and an emitter firing an event the handler is registered
  for. Each is a turn of its own; what one raises does not stop the next.
\<close>

datatype trigger = Completion | Signal string

fun fire :: "SeleniumStandaloneLauncher \<Rightarrow> trigger \<Rightarrow> js_error option \<times> effect list" where
  "fire this Completion = onComplete this"
| "fire this (Signal ev) = stopProcess this"

definition fire_all ::
  "SeleniumStandaloneLauncher \<Rightarrow> trigger list \<Rightarrow> (js_error option \<times> effect list) list" where
  "fire_all this ts = map (fire this) ts"

definition kills :: "(js_error option \<times> effect list) list \<Rightarrow> nat list" where
  "kills rs = concat (map (\<lambda>(r, es). concat (map (\<lambda>e. case e of Kill n \<Rightarrow> [n] | _ \<Rightarrow> []) es)) rs)"

section \<open>Example configurations\<close>

text \<open>Concrete loaders, constructors and launchers on which the theorems below are instantiated.\<close>

definition throwing_loader :: plugin_loader where
  "throwing_loader name = Inl (Thrown (JStr ''Cannot find module''))"


definition example_loader :: plugin_loader where
  "example_loader name =
     (if name = JStr ''launcher-only'' then Inr (JObj [(''launcher'', JFun ''Launcher'' [])])
      else if name = JStr ''worker'' then Inr (JObj [(''default'', JFun ''Worker'' [])])
      else Inl (Thrown (JStr ''Cannot find module'')))"

definition example_construct :: constructing where
  "example_construct C options caps config =
     (if C = JFun ''Failing'' [] then Inl (Thrown (JStr ''constructor failed'')) else Inr [])"

definition example_host :: host where
  "example_host = \<lparr>getFilePath = (\<lambda>dir file. dir @ ''/'' @ file), ensureFileSync = (\<lambda>f. None)\<rparr>"

definition example_caps :: capabilities_in where
  "example_caps = CapsObject
     [(''browserA'', [''browserName'' \<mapsto> JStr ''chrome'', ''port'' \<mapsto> JNum 1234]),
      (''browserB'', [''browserName'' \<mapsto> JStr ''firefox''])]"

definition example_launcher :: SeleniumStandaloneLauncher where
  "example_launcher =
     constructor \<lparr>opt_logPath = None, opt_installArgs = JUndefined, opt_args = JUndefined,
                  opt_skipSeleniumInstall = None\<rparr>
       example_caps \<lparr>outputDir = None, watch = None\<rparr>"

definition running_launcher :: SeleniumStandaloneLauncher where
  "running_launcher = example_launcher\<lparr>watchMode := True, process := ChildProcess 7\<rparr>"

section \<open>Capability descriptors after onPrepare\<close>

lemma assign_defaults_lookup:
  "assign_defaults c k = (case c k of Some v \<Rightarrow> Some v | None \<Rightarrow> DEFAULT_CONNECTION k)"
  by (simp add: assign_defaults_def object_assign_def map_add_def split: option.splits)

lemma descriptors_update:
  "descriptors (update_capabilities caps) = map assign_defaults (descriptors caps)"
  by (cases caps) (simp_all add: comp_def case_prod_unfold)

lemma onPrepare_capabilities:
  "capabilities (fst (snd (onPrepare h config this))) = update_capabilities (capabilities this)"
  by (simp add: onPrepare_def Let_def split: prod.splits option.splits)

text \<open>
  C3. Whatever the configuration and the shape of the capabilities (array or keyed
  object), the descriptors after \<^verbatim>\<open>onPrepare\<close> are as many as before, each keeps
  every property it had with its value, and each of \<^verbatim>\<open>protocol\<close>,
  \<^verbatim>\<open>hostname\<close>, \<^verbatim>\<open>port\<close>, \<^verbatim>\<open>path\<close> it lacked is
  \<^verbatim>\<open>http\<close>, \<^verbatim>\<open>localhost\<close>, 4444, \<^verbatim>\<open>/wd/hub\<close>.
\<close>

theorem onPrepare_merges_defaults:
  fixes h config this
  defines "before \<equiv> descriptors (capabilities this)"
      and "after \<equiv> descriptors (capabilities (fst (snd (onPrepare h config this))))"
  shows "length after = length before \<and>
         (\<forall>i < length before.
            (\<forall>k v. (before ! i) k = Some v \<longrightarrow> (after ! i) k = Some v) \<and>
            ((before ! i) ''protocol'' = None \<longrightarrow> (after ! i) ''protocol'' = Some (JStr ''http'')) \<and>
            ((before ! i) ''hostname'' = None \<longrightarrow> (after ! i) ''hostname'' = Some (JStr ''localhost'')) \<and>
            ((before ! i) ''port'' = None \<longrightarrow> (after ! i) ''port'' = Some (JNum 4444)) \<and>
            ((before ! i) ''path'' = None \<longrightarrow> (after ! i) ''path'' = Some (JStr ''/wd/hub'')))"
  unfolding before_def after_def onPrepare_capabilities descriptors_update
  by (simp add: assign_defaults_lookup DEFAULT_CONNECTION_def)

theorem onPrepare_merges_defaults_witness:
  "(descriptors (capabilities example_launcher) ! 0) ''port'' = Some (JNum 1234) \<and>
   (descriptors (capabilities example_launcher) ! 0) ''protocol'' = None \<and>
   (descriptors (capabilities (fst (snd (onPrepare example_host \<lparr>outputDir = None, watch = None\<rparr>
       example_launcher)))) ! 0) ''port'' = Some (JNum 1234) \<and>
   (descriptors (capabilities (fst (snd (onPrepare example_host \<lparr>outputDir = None, watch = None\<rparr>
       example_launcher)))) ! 0) ''protocol'' = Some (JStr ''http'')"
proof -
  have len: "0 < length (descriptors (capabilities example_launcher))"
    by (simp add: example_launcher_def constructor_def example_caps_def)
  have port: "(descriptors (capabilities example_launcher) ! 0) ''port'' = Some (JNum 1234)"
    by (simp add: example_launcher_def constructor_def example_caps_def)
  have proto: "(descriptors (capabilities example_launcher) ! 0) ''protocol'' = None"
    by (simp add: example_launcher_def constructor_def example_caps_def)
  from onPrepare_merges_defaults [where this = example_launcher and h = example_host
      and config = "\<lparr>outputDir = None, watch = None\<rparr>"]
    len port proto
  show ?thesis by blast
qed

section \<open>Resolution and the launcher loop\<close>

lemma getProp_same_receiver:
  "getProp v k = Inr x \<Longrightarrow> \<exists>y. getProp v k' = Inr y"
  by (cases v) simp_all

lemma body_named:
  assumes "fst (initialiseServices_body load e) = Inr (service, cfg, name)"
  shows "name = JUndefined \<or>
         (name = element e 0 \<and> typeOf name \<noteq> TObject \<and> typeOf name \<noteq> TFunction \<and>
          load name = Inr service)"
  using assms
  by (auto simp: initialiseServices_body_def Let_def split: if_splits sum.splits)

lemma body_of_string:
  assumes "element e 0 = JStr s" and "fst (initialiseServices_body load e) = Inr r"
  shows "\<exists>m cfg. r = (m, cfg, JStr s) \<and> load (JStr s) = Inr m"
  using assms
  by (auto simp: initialiseServices_body_def Let_def split: if_splits sum.splits)

lemma body_events:
  "PluginCall x \<in> set (snd (initialiseServices_body load e)) \<Longrightarrow> element e 0 = x"
  by (auto simp: initialiseServices_body_def Let_def split: if_splits sum.splits)

lemma loop_resolved:
  "initialiseServices_loop load acc ev es = (Inr rs, ev') \<Longrightarrow>
   \<exists>rs'. rs = acc @ rs' \<and> list_all2 (\<lambda>e r. fst (initialiseServices_body load e) = Inr r) es rs'"
proof (induction es arbitrary: acc ev)
  case Nil
  then show ?case by simp
next
  case (Cons e es)
  obtain res ev1 where b: "initialiseServices_body load e = (res, ev1)"
    by (cases "initialiseServices_body load e")
  show ?case
  proof (cases res)
    case (Inl err)
    with Cons.prems b show ?thesis by simp
  next
    case (Inr r)
    with Cons.prems b
    have "initialiseServices_loop load (acc @ [r]) (ev @ ev1) es = (Inr rs, ev')" by simp
    from Cons.IH [OF this] obtain rs' where
      "rs = (acc @ [r]) @ rs'" "list_all2 (\<lambda>e r. fst (initialiseServices_body load e) = Inr r) es rs'"
      by blast
    with b Inr show ?thesis by (intro exI [of _ "r # rs'"]) simp
  qed
qed

lemma loop_events:
  "PluginCall x \<in> set (snd (initialiseServices_loop load acc ev es)) \<Longrightarrow>
   PluginCall x \<in> set ev \<or> (\<exists>e \<in> set es. element e 0 = x)"
proof (induction es arbitrary: acc ev)
  case Nil
  then show ?case by simp
next
  case (Cons e es)
  obtain res ev1 where b: "initialiseServices_body load e = (res, ev1)"
    by (cases "initialiseServices_body load e")
  show ?case
  proof (cases res)
    case (Inl err)
    with Cons.prems b have "PluginCall x \<in> set ev \<or> PluginCall x \<in> set ev1" by auto
    moreover have "PluginCall x \<in> set ev1 \<Longrightarrow> element e 0 = x"
      using body_events [of x load e] b by simp
    ultimately show ?thesis by auto
  next
    case (Inr r)
    with Cons.prems b
    have "PluginCall x \<in> set (snd (initialiseServices_loop load (acc @ [r]) (ev @ ev1) es))"
      by simp
    from Cons.IH [OF this]
    have "PluginCall x \<in> set ev \<or> PluginCall x \<in> set ev1 \<or> (\<exists>e \<in> set es. element e 0 = x)"
      by auto
    moreover have "PluginCall x \<in> set ev1 \<Longrightarrow> element e 0 = x"
      using body_events [of x load e] b by simp
    ultimately show ?thesis by auto
  qed
qed

lemma initialiseServices_resolved:
  "initialiseServices load es = (Inr rs, ev) \<Longrightarrow>
   list_all2 (\<lambda>e r. fst (initialiseServices_body load e) = Inr r) es rs"
  using loop_resolved [of load "[]" "[]" es rs ev] by (simp add: initialiseServices_def)

lemma initialiseServices_events:
  "PluginCall x \<in> set (snd (initialiseServices load es)) \<Longrightarrow> \<exists>e \<in> set es. element e 0 = x"
  using loop_events [of x load "[]" "[]" es] by (simp add: initialiseServices_def)

lemma launcher_body_ignored:
  "launcher_body c caps cfg (s, sc, n) (acc, ev) = (r, acc', ev') \<Longrightarrow>
   ignoredWorkerServices acc' = ignoredWorkerServices acc \<or>
   (ignoredWorkerServices acc' = ignoredWorkerServices acc @ [n] \<and> truthy n)"
  by (auto simp: launcher_body_def Let_def split: if_splits sum.splits prod.splits option.splits)

lemma launcher_body_appends:
  "launcher_body c caps cfg (m, sc, n) (acc, ev) = (None, acc', ev') \<Longrightarrow> truthy n \<Longrightarrow>
   (\<forall>d. getProp m ''default'' = Inr d \<longrightarrow> typeOf d \<noteq> TFunction) \<Longrightarrow> typeOf m \<noteq> TFunction \<Longrightarrow>
   n \<in> set (ignoredWorkerServices acc')"
  by (auto simp: launcher_body_def Let_def split: if_splits sum.splits prod.splits option.splits)


lemma launcher_loop_append:
  "launcher_loop c caps cfg pre st = (None, st1) \<Longrightarrow>
   launcher_loop c caps cfg (pre @ ts) st = launcher_loop c caps cfg ts st1"
proof (induction pre arbitrary: st)
  case Nil
  then show ?case by simp
next
  case (Cons t pre)
  obtain r acc ev where b: "launcher_body c caps cfg t st = (r, acc, ev)"
    by (cases "launcher_body c caps cfg t st")
  show ?case
  proof (cases r)
    case None
    with Cons.prems b have "launcher_loop c caps cfg pre (acc, ev) = (None, st1)" by simp
    from Cons.IH [OF this] b None show ?thesis by simp
  next
    case (Some err)
    with Cons.prems b show ?thesis by simp
  qed
qed

lemma launcher_loop_ignored:
  "launcher_loop c caps cfg ts (acc, ev) = (r, acc', ev') \<Longrightarrow>
   x \<in> set (ignoredWorkerServices acc') \<Longrightarrow>
   x \<in> set (ignoredWorkerServices acc) \<or> (truthy x \<and> x \<in> (\<lambda>t. snd (snd t)) ` set ts)"
proof (induction ts arbitrary: acc ev)
  case Nil
  then show ?case by simp
next
  case (Cons t ts)
  obtain s sc n where t: "t = (s, sc, n)" by (cases t)
  obtain r1 acc1 ev1 where b: "launcher_body c caps cfg (s, sc, n) (acc, ev) = (r1, acc1, ev1)"
    by (cases "launcher_body c caps cfg (s, sc, n) (acc, ev)")
  from launcher_body_ignored [OF b]
  have step: "\<And>y. y \<in> set (ignoredWorkerServices acc1) \<Longrightarrow>
                y \<in> set (ignoredWorkerServices acc) \<or> (truthy y \<and> y = n)"
    by auto
  show ?case
  proof (cases r1)
    case None
    with Cons.prems b t
    have "launcher_loop c caps cfg ts (acc1, ev1) = (r, acc', ev')" by simp
    from Cons.IH [OF this Cons.prems(2)] step t show ?thesis by force
  next
    case (Some err)
    with Cons.prems b t have "acc' = acc1" by simp
    with Cons.prems(2) step t show ?thesis by force
  qed
qed

lemma launcher_loop_keeps:
  "launcher_loop c caps cfg ts (acc, ev) = (r, acc', ev') \<Longrightarrow>
   x \<in> set (ignoredWorkerServices acc) \<Longrightarrow> x \<in> set (ignoredWorkerServices acc')"
proof (induction ts arbitrary: acc ev)
  case Nil
  then show ?case by simp
next
  case (Cons t ts)
  obtain s sc n where t: "t = (s, sc, n)" by (cases t)
  obtain r1 acc1 ev1 where b: "launcher_body c caps cfg (s, sc, n) (acc, ev) = (r1, acc1, ev1)"
    by (cases "launcher_body c caps cfg (s, sc, n) (acc, ev)")
  from launcher_body_ignored [OF b] Cons.prems(2)
  have step: "x \<in> set (ignoredWorkerServices acc1)" by auto
  show ?case
  proof (cases r1)
    case None
    with Cons.prems b t
    have "launcher_loop c caps cfg ts (acc1, ev1) = (r, acc', ev')" by simp
    from Cons.IH [OF this step] show ?thesis .
  next
    case (Some err)
    with Cons.prems b t have "acc' = acc1" by simp
    with step show ?thesis by simp
  qed
qed

lemma launcher_loop_appends:
  "launcher_loop c caps cfg ts (acc, ev) = (None, acc', ev') \<Longrightarrow>
   (m, sc, n) \<in> set ts \<Longrightarrow> truthy n \<Longrightarrow>
   (\<forall>d. getProp m ''default'' = Inr d \<longrightarrow> typeOf d \<noteq> TFunction) \<Longrightarrow> typeOf m \<noteq> TFunction \<Longrightarrow>
   n \<in> set (ignoredWorkerServices acc')"
proof (induction ts arbitrary: acc ev)
  case Nil
  then show ?case by simp
next
  case (Cons t ts)
  obtain r1 acc1 ev1 where b: "launcher_body c caps cfg t (acc, ev) = (r1, acc1, ev1)"
    by (cases "launcher_body c caps cfg t (acc, ev)")
  with Cons.prems(1) have r1: "r1 = None"
    by (cases r1) simp_all
  with Cons.prems(1) b have rest: "launcher_loop c caps cfg ts (acc1, ev1) = (None, acc', ev')"
    by simp
  show ?case
  proof (cases "t = (m, sc, n)")
    case True
    with b r1 have "launcher_body c caps cfg (m, sc, n) (acc, ev) = (None, acc1, ev1)" by simp
    from launcher_body_appends [OF this Cons.prems(3) Cons.prems(4) Cons.prems(5)]
    have "n \<in> set (ignoredWorkerServices acc1)" .
    from launcher_loop_keeps [OF rest this] show ?thesis .
  next
    case False
    with Cons.prems(2) have "(m, sc, n) \<in> set ts" by simp
    from Cons.IH [OF rest this Cons.prems(3) Cons.prems(4) Cons.prems(5)] show ?thesis .
  qed
qed


lemmas resolver_defs =
  initialiseLauncherService_def launcher_try_def initialiseServices_def
  initialiseServices_body_def launcher_body_def sanitizeServiceArray_def element_def
  js_or_def Let_def initialiseWorkerService_def worker_try_def workerServices_def
  worker_body_def includes_name_def
  throwing_loader_def example_loader_def example_construct_def

section \<open>initialiseLauncherService\<close>

lemma launcher_try_cases:
  "launcher_try load construct config caps = (r, acc, ev) \<Longrightarrow>
   fst (initialiseLauncherService load construct config caps) = Inr acc \<and>
   (\<forall>err. r = Some err \<longrightarrow>
      snd (initialiseLauncherService load construct config caps) = ev @ [LogError err])"
  by (cases r) (simp_all add: initialiseLauncherService_def)




section \<open>initialiseWorkerService and the ignore list\<close>


lemma worker_body_events:
  "e \<in> set (snd (worker_body c caps cfg t)) \<Longrightarrow> \<exists>C opts. e = NewCall C opts"
  by (cases t)
     (auto simp: worker_body_def Let_def split: if_splits sum.splits)

lemma worker_map_events:
  "e \<in> set (snd (worker_map c caps cfg ts)) \<Longrightarrow> \<exists>C opts. e = NewCall C opts"
proof (induction ts)
  case Nil
  then show ?case by simp
next
  case (Cons t ts)
  obtain r1 ev1 where b: "worker_body c caps cfg t = (r1, ev1)"
    by (cases "worker_body c caps cfg t")
  obtain r2 ev2 where m: "worker_map c caps cfg ts = (r2, ev2)"
    by (cases "worker_map c caps cfg ts")
  from Cons.prems b m have "e \<in> set ev1 \<or> e \<in> set ev2"
    by (cases r1; cases r2) auto
  with worker_body_events [of e c caps cfg t] Cons.IH b m show ?case by auto
qed




lemma worker_try_events:
  "PluginCall x \<in> set (snd (worker_try load c cfg caps ws)) \<Longrightarrow> \<exists>e \<in> set ws. element e 0 = x"
proof -
  assume a: "PluginCall x \<in> set (snd (worker_try load c cfg caps ws))"
  obtain r ev where i: "initialiseServices load ws = (r, ev)"
    by (cases "initialiseServices load ws")
  have "PluginCall x \<in> set ev"
  proof (cases r)
    case (Inl err)
    with a i show ?thesis by (simp add: worker_try_def)
  next
    case (Inr resolved)
    obtain r2 ev2 where m: "worker_map c caps cfg resolved = (r2, ev2)"
      by (cases "worker_map c caps cfg resolved")
    with a i Inr have "PluginCall x \<in> set ev \<or> PluginCall x \<in> set ev2"
      by (cases r2) (auto simp: worker_try_def)
    moreover have "PluginCall x \<notin> set ev2"
      using worker_map_events [of "PluginCall x" c caps cfg resolved] m by auto
    ultimately show ?thesis by simp
  qed
  with initialiseServices_events [of x load ws] i show ?thesis by simp
qed


lemma workerServices_filtered:
  "s \<in> set ignored \<Longrightarrow> entry \<in> set (workerServices svcs ignored) \<Longrightarrow> element entry 0 \<noteq> JStr s"
  by (auto simp: workerServices_def includes_name_def)


lemma list_all2_memD:
  "list_all2 P xs ys \<Longrightarrow> x \<in> set xs \<Longrightarrow> \<exists>y \<in> set ys. P x y"
  by (induction rule: list_all2_induct) auto

lemma list_all2_memD2:
  "list_all2 P xs ys \<Longrightarrow> y \<in> set ys \<Longrightarrow> \<exists>x \<in> set xs. P x y"
  by (induction rule: list_all2_induct) auto

text \<open>
  C5, as the code has it. Let the resolution of the whole service list go through,
  and let the rounds of the launcher loop up to and including the one of an entry
  raise nothing. If that entry is named by a non-empty string and its module has
  no callable \<^verbatim>\<open>default\<close> and is not callable, its name is in
  \<^verbatim>\<open>ignoredWorkerServices\<close>, whatever the later rounds do; and
  \<^verbatim>\<open>initialiseWorkerService\<close>, given an ignore list with that name, hands
  \<^verbatim>\<open>initialiseServices\<close> no entry of that name and never calls the plugin
  loader with it.
\<close>

theorem ignored_service_skipped_in_worker:
  assumes svcs: "services config = Some svcs"
      and resolution: "fst (initialiseServices load (map sanitizeServiceArray svcs)) = Inr resolved"
      and i: "i < length svcs"
      and name: "element (sanitizeServiceArray (svcs ! i)) 0 = JStr s"
      and nonempty: "s \<noteq> []"
      and m: "load (JStr s) = Inr m"
      and nodefault: "\<forall>d. getProp m ''default'' = Inr d \<longrightarrow> typeOf d \<noteq> TFunction"
      and nofun: "typeOf m \<noteq> TFunction"
      and rounds: "fst (launcher_loop construct caps config (take (Suc i) resolved)
                          (\<lparr>ignoredWorkerServices = [], launcherServices = []\<rparr>,
                           snd (initialiseServices load (map sanitizeServiceArray svcs)))) = None"
  shows "(\<exists>r. fst (initialiseLauncherService load construct config caps) = Inr r \<and>
              JStr s \<in> set (ignoredWorkerServices r)) \<and>
         (\<forall>ignored wcaps. s \<in> set ignored \<longrightarrow>
            (\<forall>entry \<in> set (workerServices svcs ignored). element entry 0 \<noteq> JStr s) \<and>
            PluginCall (JStr s) \<notin>
              set (snd (initialiseWorkerService load construct config wcaps ignored)))"
proof
  let ?nothing = "\<lparr>ignoredWorkerServices = [], launcherServices = []\<rparr>"
  obtain ev0 where init: "initialiseServices load (map sanitizeServiceArray svcs) = (Inr resolved, ev0)"
    using resolution by (cases "initialiseServices load (map sanitizeServiceArray svcs)") auto
  note all2 = initialiseServices_resolved [OF init]
  have len: "length resolved = length svcs" using list_all2_lengthD [OF all2] by simp
  from list_all2_nthD [OF all2, of i] i
  have bt: "fst (initialiseServices_body load (sanitizeServiceArray (svcs ! i))) = Inr (resolved ! i)"
    by simp
  from body_of_string [OF name bt] m obtain sc where t: "resolved ! i = (m, sc, JStr s)" by auto
  from i len have "resolved ! i \<in> set (take (Suc i) resolved)"
    by (simp add: in_set_conv_nth) (metis lessI min_less_iff_conj nth_take)
  with t have mem: "(m, sc, JStr s) \<in> set (take (Suc i) resolved)" by simp
  obtain acc1 ev1 where
    pre: "launcher_loop construct caps config (take (Suc i) resolved) (?nothing, ev0) = (None, acc1, ev1)"
    using rounds init
    by (cases "launcher_loop construct caps config (take (Suc i) resolved) (?nothing, ev0)") auto
  from launcher_loop_appends [OF pre mem _ nodefault nofun] nonempty
  have in1: "JStr s \<in> set (ignoredWorkerServices acc1)" by simp
  obtain r2 acc2 ev2 where
    rest: "launcher_loop construct caps config (drop (Suc i) resolved) (acc1, ev1) = (r2, acc2, ev2)"
    by (cases "launcher_loop construct caps config (drop (Suc i) resolved) (acc1, ev1)")
  from launcher_loop_keeps [OF rest in1] have in2: "JStr s \<in> set (ignoredWorkerServices acc2)" .
  from launcher_loop_append [OF pre, of "drop (Suc i) resolved"] rest
  have "launcher_loop construct caps config resolved (?nothing, ev0) = (r2, acc2, ev2)" by simp
  with svcs init have "launcher_try load construct config caps = (r2, acc2, ev2)"
    by (simp add: launcher_try_def)
  from launcher_try_cases [OF this] in2
  show "\<exists>r. fst (initialiseLauncherService load construct config caps) = Inr r \<and>
            JStr s \<in> set (ignoredWorkerServices r)" by blast
next
  show "\<forall>ignored wcaps. s \<in> set ignored \<longrightarrow>
            (\<forall>entry \<in> set (workerServices svcs ignored). element entry 0 \<noteq> JStr s) \<and>
            PluginCall (JStr s) \<notin>
              set (snd (initialiseWorkerService load construct config wcaps ignored))"
  proof (intro allI impI conjI ballI)
    fix ignored wcaps entry
    assume "s \<in> set ignored" "entry \<in> set (workerServices svcs ignored)"
    then show "element entry 0 \<noteq> JStr s" by (rule workerServices_filtered)
  next
    fix ignored wcaps
    assume s: "s \<in> set ignored"
    let ?ws = "workerServices svcs ignored"
    obtain r ev where w: "worker_try load construct config wcaps ?ws = (r, ev)"
      by (cases "worker_try load construct config wcaps ?ws")
    have "PluginCall (JStr s) \<notin> set ev"
      using worker_try_events [of "JStr s" load construct config wcaps ?ws] w
            workerServices_filtered [OF s] by auto
    with w svcs
    show "PluginCall (JStr s) \<notin>
            set (snd (initialiseWorkerService load construct config wcaps ignored))"
      by (cases r) (simp_all add: initialiseWorkerService_def)
  qed
qed

text \<open>
  A launcher-only module, then a constructor that throws, then a worker module:
  the name of the first is recorded although the second round raises.
\<close>

theorem ignored_service_skipped_in_worker_witness:
  "initialiseLauncherService example_loader example_construct
        \<lparr>services = Some [JStr ''launcher-only'', JFun ''Failing'' [], JStr ''worker'']\<rparr> JNull
     = (Inr \<lparr>ignoredWorkerServices = [JStr ''launcher-only''], launcherServices = [JObj []]\<rparr>,
        [LogDebug (NpmPackage (JStr ''launcher-only'')), PluginCall (JStr ''launcher-only''),
         LogDebug (CustomService (JStr ''Failing'')),
         LogDebug (NpmPackage (JStr ''worker'')), PluginCall (JStr ''worker''),
         NewCall (JFun ''Launcher'' []) (JObj []),
         NewCall (JFun ''Failing'' []) (JObj []),
         LogError (Thrown (JStr ''constructor failed''))]) \<and>
   PluginCall (JStr ''launcher-only'') \<notin>
     set (snd (initialiseWorkerService example_loader example_construct
        \<lparr>services = Some [JStr ''launcher-only'', JFun ''Failing'' [], JStr ''worker'']\<rparr> JNull
        [''launcher-only'']))"
proof -
  let ?svcs = "[JStr ''launcher-only'', JFun ''Failing'' [], JStr ''worker'']"
  let ?config = "\<lparr>services = Some ?svcs\<rparr>"
  let ?m = "JObj [(''launcher'', JFun ''Launcher'' [])]"
  let ?resolved = "[(?m, JObj [], JStr ''launcher-only''),
                    (JFun ''Failing'' [], JObj [], JUndefined),
                    (JObj [(''default'', JFun ''Worker'' [])], JObj [], JStr ''worker'')]"
  have 1: "services ?config = Some ?svcs" by simp
  have 2: "fst (initialiseServices example_loader (map sanitizeServiceArray ?svcs)) = Inr ?resolved"
    by (simp add: resolver_defs)
  have 3: "0 < length ?svcs" by simp
  have 4: "element (sanitizeServiceArray (?svcs ! 0)) 0 = JStr ''launcher-only''"
    by (simp add: sanitizeServiceArray_def element_def)
  have 5: "''launcher-only'' \<noteq> []" by simp
  have 6: "example_loader (JStr ''launcher-only'') = Inr ?m" by (simp add: example_loader_def)
  have 7: "\<forall>d. getProp ?m ''default'' = Inr d \<longrightarrow> typeOf d \<noteq> TFunction" by simp
  have 8: "typeOf ?m \<noteq> TFunction" by simp
  have 9: "fst (launcher_loop example_construct JNull ?config (take (Suc 0) ?resolved)
                  (\<lparr>ignoredWorkerServices = [], launcherServices = []\<rparr>,
                   snd (initialiseServices example_loader (map sanitizeServiceArray ?svcs)))) = None"
    by (simp add: resolver_defs)
  have 10: "''launcher-only'' \<in> set [''launcher-only'']" by simp
  from ignored_service_skipped_in_worker [OF 1 2 3 4 5 6 7 8 9] 10
  have "PluginCall (JStr ''launcher-only'') \<notin>
     set (snd (initialiseWorkerService example_loader example_construct ?config JNull
        [''launcher-only'']))" by blast
  moreover
  have "initialiseLauncherService example_loader example_construct ?config JNull
     = (Inr \<lparr>ignoredWorkerServices = [JStr ''launcher-only''], launcherServices = [JObj []]\<rparr>,
        [LogDebug (NpmPackage (JStr ''launcher-only'')), PluginCall (JStr ''launcher-only''),
         LogDebug (CustomService (JStr ''Failing'')),
         LogDebug (NpmPackage (JStr ''worker'')), PluginCall (JStr ''worker''),
         NewCall (JFun ''Launcher'' []) (JObj []),
         NewCall (JFun ''Failing'' []) (JObj []),
         LogError (Thrown (JStr ''constructor failed''))])"
    by (simp add: resolver_defs)
  ultimately show ?thesis by simp
qed

text \<open>
  A launcher-only module next to a name the loader cannot resolve: the resolution
  raises, and the name of the launcher-only module is not recorded.
\<close>

theorem ignored_service_lost_counterexample:
  "example_loader (JStr ''launcher-only'') = Inr (JObj [(''launcher'', JFun ''Launcher'' [])]) \<and>
   initialiseLauncherService example_loader example_construct
        \<lparr>services = Some [JStr ''launcher-only'', JStr ''missing'']\<rparr> JNull
     = (Inr \<lparr>ignoredWorkerServices = [], launcherServices = []\<rparr>,
        [LogDebug (NpmPackage (JStr ''launcher-only'')), PluginCall (JStr ''launcher-only''),
         LogDebug (NpmPackage (JStr ''missing'')), PluginCall (JStr ''missing''),
         LogError (Thrown (JStr ''Cannot find module''))])"
  by (simp add: resolver_defs)

lemma typeOf_string: "typeOf v = TString \<Longrightarrow> \<exists>s. v = JStr s"
  by (cases v) simp_all

text \<open>
  C10. Let every entry of the service list be given by a string, a constructor or
  an object. Then every element of \<^verbatim>\<open>ignoredWorkerServices\<close> is a string that
  names an entry of the list, and the name of an entry given as a constructor or
  as an object is never among them.
\<close>

theorem ignoredWorkerServices_named:
  assumes svcs: "services config = Some svcs"
      and typed: "\<forall>e \<in> set svcs.
                    typeOf (element (sanitizeServiceArray e) 0) \<in> {TString, TFunction, TObject}"
      and out: "fst (initialiseLauncherService load construct config caps) = Inr r"
  shows "(\<forall>x \<in> set (ignoredWorkerServices r).
            \<exists>s. x = JStr s \<and> (\<exists>e \<in> set svcs. element (sanitizeServiceArray e) 0 = JStr s)) \<and>
         (\<forall>e \<in> set svcs. typeOf (element (sanitizeServiceArray e) 0) \<in> {TFunction, TObject} \<longrightarrow>
            element (sanitizeServiceArray e) 0 \<notin> set (ignoredWorkerServices r))"
proof -
  have main: "\<exists>s. x = JStr s \<and> (\<exists>e \<in> set svcs. element (sanitizeServiceArray e) 0 = JStr s)"
    if x: "x \<in> set (ignoredWorkerServices r)" for x
  proof -
    obtain err acc ev where lt: "launcher_try load construct config caps = (err, acc, ev)"
      by (cases "launcher_try load construct config caps")
    from launcher_try_cases [OF lt] out have acc: "acc = r" by simp
    obtain res ev0 where i: "initialiseServices load (map sanitizeServiceArray svcs) = (res, ev0)"
      by (cases "initialiseServices load (map sanitizeServiceArray svcs)")
    show ?thesis
    proof (cases res)
      case (Inl e)
      with lt svcs i acc x show ?thesis by (auto simp: launcher_try_def)
    next
      case (Inr resolved)
      with lt svcs i
      have loop: "launcher_loop construct caps config resolved
                    (\<lparr>ignoredWorkerServices = [], launcherServices = []\<rparr>, ev0) = (err, acc, ev)"
        by (simp add: launcher_try_def)
      from x acc have "x \<in> set (ignoredWorkerServices acc)" by simp
      from launcher_loop_ignored [OF loop this]
      have tr: "truthy x" and "x \<in> (\<lambda>t. snd (snd t)) ` set resolved" by simp_all
      then obtain t where t: "t \<in> set resolved" and xt: "x = snd (snd t)" by blast
      from list_all2_memD2 [OF initialiseServices_resolved [OF i [unfolded Inr]] t]
      obtain e where e: "e \<in> set svcs"
        and b: "fst (initialiseServices_body load (sanitizeServiceArray e)) = Inr t"
        by auto
      obtain sv sc n where tt: "t = (sv, sc, n)" by (cases t)
      from body_named [OF b [unfolded tt]] xt tt tr
      have n: "x = element (sanitizeServiceArray e) 0" "typeOf x \<noteq> TObject" "typeOf x \<noteq> TFunction"
        by auto
      with typed e have "typeOf x = TString" by auto
      from typeOf_string [OF this] obtain s where s: "x = JStr s" by blast
      with n have "element (sanitizeServiceArray e) 0 = JStr s" by simp
      with e s show ?thesis by blast
    qed
  qed
  show ?thesis
  proof (intro conjI ballI impI)
    fix x assume "x \<in> set (ignoredWorkerServices r)"
    then show "\<exists>s. x = JStr s \<and> (\<exists>e \<in> set svcs. element (sanitizeServiceArray e) 0 = JStr s)"
      by (rule main)
  next
    fix e
    assume "e \<in> set svcs"
       and ty: "typeOf (element (sanitizeServiceArray e) 0) \<in> {TFunction, TObject}"
    show "element (sanitizeServiceArray e) 0 \<notin> set (ignoredWorkerServices r)"
    proof
      assume "element (sanitizeServiceArray e) 0 \<in> set (ignoredWorkerServices r)"
      from main [OF this] ty show False by auto
    qed
  qed
qed

theorem ignoredWorkerServices_named_witness:
  "set (ignoredWorkerServices (projr (fst (initialiseLauncherService example_loader
      example_construct
      \<lparr>services = Some [JStr ''launcher-only'', JFun ''Working'' [],
                         JArr [JObj [(''before'', JFun ''hook'' [])]]]\<rparr> JNull))))
     = {JStr ''launcher-only''} \<and>
   JFun ''Working'' [] \<notin> set (ignoredWorkerServices (projr (fst (initialiseLauncherService
      example_loader example_construct
      \<lparr>services = Some [JStr ''launcher-only'', JFun ''Working'' [],
                         JArr [JObj [(''before'', JFun ''hook'' [])]]]\<rparr> JNull))))"
proof -
  let ?svcs = "[JStr ''launcher-only'', JFun ''Working'' [],
                JArr [JObj [(''before'', JFun ''hook'' [])]]]"
  let ?config = "\<lparr>services = Some ?svcs\<rparr>"
  let ?r = "\<lparr>ignoredWorkerServices = [JStr ''launcher-only''],
             launcherServices = [JObj [], JObj [], JObj [(''before'', JFun ''hook'' [])]]\<rparr>"
  have 1: "services ?config = Some ?svcs" by simp
  have 2: "\<forall>e \<in> set ?svcs.
             typeOf (element (sanitizeServiceArray e) 0) \<in> {TString, TFunction, TObject}"
    by (simp add: sanitizeServiceArray_def element_def)
  have 3: "fst (initialiseLauncherService example_loader example_construct ?config JNull) = Inr ?r"
    by (simp add: resolver_defs)
  have 4: "JFun ''Working'' [] \<in> set ?svcs" by simp
  have 5: "typeOf (element (sanitizeServiceArray (JFun ''Working'' [])) 0) \<in> {TFunction, TObject}"
    by (simp add: sanitizeServiceArray_def element_def)
  have 6: "element (sanitizeServiceArray (JFun ''Working'' [])) 0 = JFun ''Working'' []"
    by (simp add: sanitizeServiceArray_def element_def)
  from ignoredWorkerServices_named [OF 1 2 3] 4 5 6
  have "JFun ''Working'' [] \<notin> set (ignoredWorkerServices ?r)" by fastforce
  with 3 show ?thesis by simp
qed



















section \<open>The launcher: onPrepare, onComplete and the stop handler\<close>

lemmas launcher_defs =
  onPrepare_def redirectLogStream_def stopProcess_def onComplete_def constructor_def
  example_launcher_def example_host_def example_caps_def running_launcher_def
  Boolean_opt_def str_or_def js_or_def promisify_def bind_this_def Let_def fire_all_def kills_def

lemma onPrepare_process:
  "process (fst (snd (onPrepare h config this))) =
     FunctionValue (Promisified (Bound (External SeleniumStart) (args this)))"
  by (simp add: onPrepare_def Let_def promisify_def bind_this_def split: prod.splits option.splits)

lemma redirect_function_effects:
  "process this = FunctionValue g \<Longrightarrow> e \<in> set (snd (redirectLogStream h this path)) \<Longrightarrow>
   (\<exists>f. e = EnsureFileSync f) \<or> (\<exists>f. e = CreateWriteStream f)"
  by (auto simp: redirectLogStream_def Let_def split: option.splits)

lemma onPrepare_effects_eq:
  "snd (snd (onPrepare h config this)) =
     (case logPath this of
        None \<Rightarrow> []
      | Some path \<Rightarrow>
          snd (redirectLogStream h
                 (this\<lparr>watchMode := Boolean_opt (watch config),
                       capabilities := update_capabilities (capabilities this),
                       process := FunctionValue
                         (Promisified (Bound (External SeleniumStart) (args this)))\<rparr>) path))"
  by (simp add: onPrepare_def Let_def promisify_def bind_this_def
           split: prod.splits option.splits)

lemma onPrepare_effects:
  assumes "e \<in> set (snd (snd (onPrepare h config this)))"
  shows "(\<exists>f. e = EnsureFileSync f) \<or> (\<exists>f. e = CreateWriteStream f)"
proof (cases "logPath this")
  case None
  with assms show ?thesis by (simp add: onPrepare_effects_eq)
next
  case (Some path)
  with assms show ?thesis
    by (simp add: onPrepare_effects_eq) (erule redirect_function_effects [rotated], simp)
qed

text \<open>
  C1, what the code does. After \<^verbatim>\<open>onPrepare\<close>, for every configuration, the
  field \<^verbatim>\<open>process\<close> holds the function that \<^verbatim>\<open>promisify\<close> returned for the
  bound \<^verbatim>\<open>start\<close>, never a process handle, and \<^verbatim>\<open>start\<close> has not been called.
\<close>

theorem onPrepare_never_starts:
  "process (fst (snd (onPrepare h config this))) =
     FunctionValue (promisify (bind_this (External SeleniumStart) (args this))) \<and>
   (\<forall>n. process (fst (snd (onPrepare h config this))) \<noteq> ChildProcess n) \<and>
   (\<forall>thisArg a. Called SeleniumStart thisArg a \<notin> set (snd (snd (onPrepare h config this))))"
  using onPrepare_effects [of _ h config this] onPrepare_process [of h config this]
  by (auto simp: promisify_def bind_this_def)

text \<open>
  C2, what the code does. No run of \<^verbatim>\<open>onPrepare\<close> calls \<^verbatim>\<open>install\<close>.
  With the install-skip flag unset and neither log path nor watch mode, it resolves
  without any effect on the outside, so there is no failure of \<^verbatim>\<open>install\<close>
  that could reject the call.
\<close>

theorem onPrepare_never_installs:
  "(\<forall>thisArg a. Called SeleniumInstall thisArg a \<notin> set (snd (snd (onPrepare h config this)))) \<and>
   skipSeleniumInstall example_launcher = False \<and>
   fst (onPrepare example_host \<lparr>outputDir = None, watch = None\<rparr> example_launcher) = None \<and>
   snd (snd (onPrepare example_host \<lparr>outputDir = None, watch = None\<rparr> example_launcher)) = []"
proof -
  have "Called SeleniumInstall thisArg a \<notin> set (snd (snd (onPrepare h config this)))"
    for thisArg a
    using onPrepare_effects [of "Called SeleniumInstall thisArg a" h config this] by auto
  then show ?thesis by (simp add: launcher_defs)
qed

text \<open>
  C7, what the code does. After \<^verbatim>\<open>onPrepare\<close> outside watch mode,
  \<^verbatim>\<open>onComplete\<close> reaches \<^verbatim>\<open>_stopProcess\<close>, which finds a truthy
  \<^verbatim>\<open>process\<close> without a \<^verbatim>\<open>kill\<close> and raises a TypeError.
\<close>

theorem onComplete_after_onPrepare_raises:
  "fst (onComplete (fst (snd (onPrepare example_host \<lparr>outputDir = None, watch = None\<rparr>
      example_launcher)))) = Some (TypeError ''kill'')"
  by (simp add: launcher_defs)

text \<open>
  C9, what the code does. In watch mode \<^verbatim>\<open>onPrepare\<close> calls \<^verbatim>\<open>on\<close> of the
  field \<^verbatim>\<open>process\<close>: with the function stored there the call raises a TypeError
  and nothing is registered; with a child handle the three registrations would be
  on the child, none on the host process.
\<close>

theorem onPrepare_watch_registers_on_field:
  "onPrepare example_host \<lparr>outputDir = None, watch = Some True\<rparr> example_launcher =
     (Some (TypeError ''on''),
      example_launcher\<lparr>watchMode := True,
        capabilities := update_capabilities (capabilities example_launcher),
        process := FunctionValue (Promisified (Bound (External SeleniumStart) (JObj [])))\<rparr>,
      []) \<and>
   register_all (ChildProcess 7) [''SIGINT'', ''exit'', ''uncaughtException''] =
     (None, [On (Child 7) ''SIGINT'', On (Child 7) ''exit'', On (Child 7) ''uncaughtException''])"
  by (simp add: launcher_defs)

text \<open>\<^verbatim>\<open>_stopProcess\<close> on the two values a process field is meant to hold.\<close>

lemma stopProcess_no_process:
  "process this = NoProcess \<Longrightarrow> stopProcess this = (None, [])"
  by (simp add: stopProcess_def)

lemma stopProcess_child:
  "process this = ChildProcess n \<Longrightarrow>
   stopProcess this = (None, [LogInfo ''shutting down all browsers'', Kill n])"
  by (simp add: stopProcess_def)

lemma fire_child:
  "process this = ChildProcess n \<Longrightarrow>
   fire this t = (if t = Completion \<and> watchMode this then (None, [])
                  else (None, [LogInfo ''shutting down all browsers'', Kill n]))"
  by (cases t) (simp_all add: onComplete_def stopProcess_child)

text \<open>
  C8, as the code has it. With a process handle in the field, every trigger that
  reaches \<^verbatim>\<open>_stopProcess\<close> (a signal, or \<^verbatim>\<open>onComplete\<close> outside watch
  mode) issues one kill on that handle: the kills are as many as those triggers,
  and none of them raises.
\<close>

theorem stopProcess_kills_every_time:
  "process this = ChildProcess n \<Longrightarrow>
   kills (fire_all this ts) =
     replicate (length (filter (\<lambda>t. t = Completion \<longrightarrow> \<not> watchMode this) ts)) n \<and>
   (\<forall>r \<in> set (fire_all this ts). fst r = None)"
proof (induction ts)
  case Nil
  then show ?case by (simp add: kills_def fire_all_def)
next
  case (Cons t ts)
  then have ih: "kills (fire_all this ts) =
     replicate (length (filter (\<lambda>t. t = Completion \<longrightarrow> \<not> watchMode this) ts)) n"
    and quiet: "\<forall>r \<in> set (fire_all this ts). fst r = None" by simp_all
  have split: "kills (fire_all this (t # ts)) = kills [fire this t] @ kills (fire_all this ts)"
    by (simp add: kills_def fire_all_def)
  have one: "kills [fire this t] = (if t = Completion \<and> watchMode this then [] else [n])"
    using fire_child [OF Cons.prems, of t] by (simp add: kills_def)
  have here: "fst (fire this t) = None"
    using fire_child [OF Cons.prems, of t] by simp
  from ih split one have "kills (fire_all this (t # ts)) =
     replicate (length (filter (\<lambda>t. t = Completion \<longrightarrow> \<not> watchMode this) (t # ts))) n"
    by simp
  moreover from quiet here have "\<forall>r \<in> set (fire_all this (t # ts)). fst r = None"
    by (simp add: fire_all_def)
  ultimately show ?case by simp
qed

theorem stopProcess_kills_every_time_witness:
  "process running_launcher = ChildProcess 7 \<and>
   kills (fire_all running_launcher [Signal ''SIGINT'', Completion, Signal ''exit'']) = [7, 7]"
proof -
  have p: "process running_launcher = ChildProcess 7"
    by (simp add: running_launcher_def)
  have w: "watchMode running_launcher" by (simp add: running_launcher_def)
  from stopProcess_kills_every_time [OF p, of "[Signal ''SIGINT'', Completion, Signal ''exit'']"] p w
  show ?thesis by (simp add: numeral_2_eq_2)
qed

text \<open>Three signals with a handle in the field: three kills, not one.\<close>

theorem stopProcess_kills_twice_counterexample:
  "process running_launcher = ChildProcess 7 \<and>
   kills (fire_all running_launcher [Signal ''SIGINT'', Signal ''exit'', Signal ''uncaughtException''])
     = [7, 7, 7]"
  by (simp add: launcher_defs)

end
